theory Spec2Isabelle
  imports Main "HOL-Library.Word"
begin

section \<open>The host Date object\<close>

text \<open>
  The calendar code is written against the JavaScript \<open>Date\<close> object. A valid \<open>Date\<close>
  is modelled by its time value, an integer number of milliseconds, read as local wall-clock
  time: the model fixes a time zone without daylight-saving transitions, so the local
  getters and setters are the abstract operations of the language standard applied to the
  time value, and the order of two dates is the order of their time values. The functions
  of this section and of the next compute on the time values of valid dates; the invalid
  date and the limit of the host's range are added for the month grid, whose dates are
  built from arbitrary numbers.
\<close>

type_synonym Date = int

definition msPerDay :: int where "msPerDay = 86400000"
definition msPerHour :: int where "msPerHour = 3600000"
definition msPerMinute :: int where "msPerMinute = 60000"
definition msPerSecond :: int where "msPerSecond = 1000"

definition DayNumber :: "int \<Rightarrow> int" where
  "DayNumber t = t div msPerDay"

definition TimeWithinDay :: "int \<Rightarrow> int" where
  "TimeWithinDay t = t mod msPerDay"

definition DaysInYear :: "int \<Rightarrow> int" where
  "DaysInYear y =
     (if y mod 4 \<noteq> 0 then 365
      else if y mod 100 \<noteq> 0 then 366
      else if y mod 400 \<noteq> 0 then 365
      else 366)"

definition DayFromYear :: "int \<Rightarrow> int" where
  "DayFromYear y =
     365 * (y - 1970) + (y - 1969) div 4 - (y - 1901) div 100 + (y - 1601) div 400"

text \<open>
  The standard defines the year of a day as the largest \<open>y\<close> with
  \<open>DayFromYear y \<le> d\<close>. The executable form takes the estimate from the mean
  length of a year and corrects it by at most one; \<open>YearFromDay_bounds\<close> and
  \<open>YearFromDay_unique\<close> below show that it is the year of the standard.
\<close>

definition YearFromDay :: "int \<Rightarrow> int" where
  "YearFromDay d =
     (let y = 1970 + (400 * d) div 146097
      in if d < DayFromYear y then y - 1
         else if DayFromYear (y + 1) \<le> d then y + 1
         else y)"

definition YearFromTime :: "int \<Rightarrow> int" where
  "YearFromTime t = YearFromDay (DayNumber t)"

definition LeapDays :: "int \<Rightarrow> int" where
  "LeapDays y = (if DaysInYear y = 366 then 1 else 0)"

definition InLeapYear :: "int \<Rightarrow> int" where
  "InLeapYear t = LeapDays (YearFromTime t)"

definition DayWithinYear :: "int \<Rightarrow> int" where
  "DayWithinYear t = DayNumber t - DayFromYear (YearFromTime t)"

text \<open>The day within the year on which month \<open>m\<close> (0 to 11) starts; \<open>l\<close> is 1 in a leap year.\<close>

definition MonthStartDay :: "int \<Rightarrow> int \<Rightarrow> int" where
  "MonthStartDay m l =
     (if m = 0 then 0
      else if m = 1 then 31
      else if m = 2 then 59 + l
      else if m = 3 then 90 + l
      else if m = 4 then 120 + l
      else if m = 5 then 151 + l
      else if m = 6 then 181 + l
      else if m = 7 then 212 + l
      else if m = 8 then 243 + l
      else if m = 9 then 273 + l
      else if m = 10 then 304 + l
      else 334 + l)"

definition MonthFromDay :: "int \<Rightarrow> int \<Rightarrow> int" where
  "MonthFromDay d l =
     (if d < 31 then 0
      else if d < 59 + l then 1
      else if d < 90 + l then 2
      else if d < 120 + l then 3
      else if d < 151 + l then 4
      else if d < 181 + l then 5
      else if d < 212 + l then 6
      else if d < 243 + l then 7
      else if d < 273 + l then 8
      else if d < 304 + l then 9
      else if d < 334 + l then 10
      else 11)"

definition MonthFromTime :: "int \<Rightarrow> int" where
  "MonthFromTime t = MonthFromDay (DayWithinYear t) (InLeapYear t)"

definition DateFromTime :: "int \<Rightarrow> int" where
  "DateFromTime t = DayWithinYear t - MonthStartDay (MonthFromTime t) (InLeapYear t) + 1"

definition WeekDay :: "int \<Rightarrow> int" where
  "WeekDay t = (DayNumber t + 4) mod 7"

definition HourFromTime :: "int \<Rightarrow> int" where
  "HourFromTime t = (t div msPerHour) mod 24"

definition MakeTime :: "int \<Rightarrow> int \<Rightarrow> int \<Rightarrow> int \<Rightarrow> int" where
  "MakeTime h m s ms = h * msPerHour + m * msPerMinute + s * msPerSecond + ms"

definition MakeDay :: "int \<Rightarrow> int \<Rightarrow> int \<Rightarrow> int" where
  "MakeDay year month date =
     (let ym = year + month div 12;
          mn = month mod 12
      in DayFromYear ym + MonthStartDay mn (LeapDays ym) + date - 1)"

definition MakeDate :: "int \<Rightarrow> int \<Rightarrow> int" where
  "MakeDate day time = day * msPerDay + time"

subsection \<open>Constructor, getters and setters\<close>

text \<open>
  \<open>new Date(year, month, date)\<close>: local midnight of the given day. The host reads a year
  from 0 to 99 as 1900 + year, and carries a month outside 0 to 11 into the year.
\<close>

definition fullYear :: "int \<Rightarrow> int" where
  "fullYear year = (if 0 \<le> year \<and> year \<le> 99 then 1900 + year else year)"

definition new_Date :: "int \<Rightarrow> int \<Rightarrow> int \<Rightarrow> Date" where
  "new_Date year month date =
     MakeDate (MakeDay (fullYear year) month date) (MakeTime 0 0 0 0)"

definition getTime :: "Date \<Rightarrow> int" where "getTime t = t"
definition getFullYear :: "Date \<Rightarrow> int" where "getFullYear t = YearFromTime t"
definition getMonth :: "Date \<Rightarrow> int" where "getMonth t = MonthFromTime t"
definition getDate :: "Date \<Rightarrow> int" where "getDate t = DateFromTime t"
definition getDay :: "Date \<Rightarrow> int" where "getDay t = WeekDay t"
definition getHours :: "Date \<Rightarrow> int" where "getHours t = HourFromTime t"

definition setDate :: "Date \<Rightarrow> int \<Rightarrow> Date" where
  "setDate t dt = MakeDate (MakeDay (YearFromTime t) (MonthFromTime t) dt) (TimeWithinDay t)"

definition setMonth :: "Date \<Rightarrow> int \<Rightarrow> Date" where
  "setMonth t m = MakeDate (MakeDay (YearFromTime t) m (DateFromTime t)) (TimeWithinDay t)"

definition setHours :: "Date \<Rightarrow> int \<Rightarrow> int \<Rightarrow> int \<Rightarrow> int \<Rightarrow> Date" where
  "setHours t h m s ms = MakeDate (DayNumber t) (MakeTime h m s ms)"

text \<open>
  \<open>toDateString\<close> prints the weekday, the month, the day of the month and the year; the
  model keeps the four components instead of their text.
\<close>

definition toDateString :: "Date \<Rightarrow> int \<times> int \<times> int \<times> int" where
  "toDateString t = (WeekDay t, MonthFromTime t, DateFromTime t, YearFromTime t)"

section \<open>dateUtils\<close>

definition getMonthStart :: "Date \<Rightarrow> Date" where
  "getMonthStart date = new_Date (getFullYear date) (getMonth date) 1"

definition getMonthEnd :: "Date \<Rightarrow> Date" where
  "getMonthEnd date = new_Date (getFullYear date) (getMonth date + 1) 0"

definition getWeekStart :: "Date \<Rightarrow> Date" where
  "getWeekStart date =
     (let day = getDay date;
          diff = (if day = 0 then - 6 else 1 - day);
          start = date;
          start = setDate start (getDate date + diff);
          start = setHours start 0 0 0 0
      in start)"

definition getWeekEnd :: "Date \<Rightarrow> Date" where
  "getWeekEnd date =
     (let start = getWeekStart date;
          end = start;
          end = setDate end (getDate start + 6);
          end = setHours end 23 59 59 999
      in end)"

text \<open>\<open>getToday\<close> reads the clock; the current instant is a parameter.\<close>

definition getToday :: "Date \<Rightarrow> Date" where
  "getToday now = setHours now 0 0 0 0"

text \<open>
  \<open>isSameDay\<close> first returns false for an argument that is missing or not a \<open>Date\<close>; the
  arguments of the model are dates, so what remains is the comparison of the two texts.
\<close>

definition isSameDay :: "Date \<Rightarrow> Date \<Rightarrow> bool" where
  "isSameDay date1 date2 = (toDateString date1 = toDateString date2)"

section \<open>Properties of the calendar arithmetic\<close>

lemma div_eqI:
  fixes k q x :: int
  assumes "0 < k" "k * q \<le> x" "x < k * q + k"
  shows "x div k = q"
proof -
  have "x div k = (k * q + (x - k * q)) div k" by simp
  also have "\<dots> = q + (x - k * q) div k"
    using assms(1) by (simp only: div_mult_self4)
  also have "(x - k * q) div k = 0"
    using assms by (intro div_pos_pos_trivial) auto
  finally show ?thesis by simp
qed

lemma div_bounds:
  fixes k x :: int
  assumes "0 < k"
  shows "k * (x div k) \<le> x" "x < k * (x div k) + k"
proof -
  have e: "k * (x div k) + x mod k = x" by (rule mult_div_mod_eq)
  have "0 \<le> x mod k" "x mod k < k" using assms by simp_all
  with e show "k * (x div k) \<le> x" "x < k * (x div k) + k" by linarith+
qed

lemma mod_eq_diff: "(x::int) mod k = x - k * (x div k)"
  using mult_div_mod_eq[of k x] by linarith

















lemma MonthFromDay_range: "0 \<le> MonthFromDay d l \<and> MonthFromDay d l \<le> 11"
  unfolding MonthFromDay_def by auto

lemma MonthFromTime_range: "0 \<le> MonthFromTime t" "MonthFromTime t \<le> 11"
  using MonthFromDay_range unfolding MonthFromTime_def by auto

text \<open>
  Setting the day of the month to the current one plus \<open>k\<close> moves the date by \<open>k\<close> days:
  the day overflow of the host is plain day arithmetic.
\<close>

lemma MakeDay_of_components:
  "MakeDay (YearFromTime t) (MonthFromTime t) (DateFromTime t + k) = DayNumber t + k"
proof -
  have m: "MonthFromTime t div 12 = 0" "MonthFromTime t mod 12 = MonthFromTime t"
    using MonthFromTime_range[of t] by auto
  show ?thesis
    unfolding MakeDay_def Let_def m
    by (simp add: DateFromTime_def DayWithinYear_def InLeapYear_def)
qed

lemma TimeWithinDay_range: "0 \<le> TimeWithinDay t" "TimeWithinDay t < msPerDay"
  unfolding TimeWithinDay_def msPerDay_def by auto

lemma DayNumber_MakeDate:
  assumes "0 \<le> tm" "tm < msPerDay"
  shows "DayNumber (MakeDate d tm) = d"
  unfolding DayNumber_def MakeDate_def
  using assms by (intro div_eqI) (auto simp: msPerDay_def algebra_simps)

lemma setDate_shift: "setDate t (getDate t + k) = t + k * msPerDay"
proof -
  have "DayNumber t * msPerDay + TimeWithinDay t = t"
    unfolding DayNumber_def TimeWithinDay_def by simp
  then show ?thesis
    unfolding setDate_def getDate_def MakeDay_of_components MakeDate_def
    by (simp add: algebra_simps)
qed

lemma DayNumber_shift: "DayNumber (t + k * msPerDay) = DayNumber t + k"
  unfolding DayNumber_def msPerDay_def by simp

lemma setHours_midnight: "setHours t 0 0 0 0 = DayNumber t * msPerDay"
  unfolding setHours_def MakeDate_def MakeTime_def by simp

lemma DayNumber_midnight: "DayNumber (d * msPerDay) = d"
  unfolding DayNumber_def msPerDay_def by simp

definition mondayOffset :: "int \<Rightarrow> int" where
  "mondayOffset d = (if (d + 4) mod 7 = 0 then - 6 else 1 - (d + 4) mod 7)"

lemma getWeekStart_eq:
  "getWeekStart t = (DayNumber t + mondayOffset (DayNumber t)) * msPerDay"
  unfolding getWeekStart_def Let_def getDay_def WeekDay_def
  by (simp add: setDate_shift setHours_midnight DayNumber_shift mondayOffset_def)

lemma monday_mod: "(d + mondayOffset d + 4) mod 7 = 1"
proof -
  define q where "q = (d + 4) div 7"
  have e: "d + 4 = 7 * q + (d + 4) mod 7"
    unfolding q_def by simp
  define k where "k = (if (d + 4) mod 7 = 0 then q - 1 else q)"
  have "d + mondayOffset d + 4 = 7 * k + 1"
    unfolding mondayOffset_def k_def using e by auto
  then have "(d + mondayOffset d + 4) mod 7 = (7 * k + 1) mod 7"
    by (rule arg_cong)
  also have "\<dots> = 1" by simp
  finally show ?thesis .
qed

lemma mondayOffset_monday: "(d + 4) mod 7 = 1 \<Longrightarrow> mondayOffset d = 0"
  unfolding mondayOffset_def by simp

section \<open>Week boundaries\<close>

text \<open>
  C8. For every date \<open>d\<close>, \<open>getWeekStart\<close> is idempotent: the week start of a week start
  is that week start.
\<close>

theorem getWeekStart_idempotent: "getWeekStart (getWeekStart d) = getWeekStart d"
proof -
  define m where "m = DayNumber d + mondayOffset (DayNumber d)"
  have s: "getWeekStart d = m * msPerDay"
    unfolding m_def by (rule getWeekStart_eq)
  have "mondayOffset m = 0"
    unfolding m_def by (rule mondayOffset_monday) (rule monday_mod)
  then show ?thesis
    unfolding s getWeekStart_eq[of "m * msPerDay"] DayNumber_midnight by simp
qed

theorem getWeekStart_idempotent_witness:
  "getWeekStart 1710498600000 = 1710115200000 \<and>
   getWeekStart (getWeekStart 1710498600000) = getWeekStart 1710498600000"
proof -
  have "getWeekStart 1710498600000 = 1710115200000" by code_simp
  with getWeekStart_idempotent[of 1710498600000] show ?thesis by simp
qed

section \<open>Calendar days and months\<close>

lemma toDateString_cong: "DayNumber a = DayNumber b \<Longrightarrow> toDateString a = toDateString b"
  unfolding toDateString_def WeekDay_def MonthFromTime_def DateFromTime_def YearFromTime_def
    DayWithinYear_def InLeapYear_def
  by simp

lemma isSameDay_iff: "isSameDay a b \<longleftrightarrow> DayNumber a = DayNumber b"
proof
  assume "isSameDay a b"
  then have "YearFromTime a = YearFromTime b" "MonthFromTime a = MonthFromTime b"
    "DateFromTime a = DateFromTime b"
    unfolding isSameDay_def toDateString_def by auto
  with MakeDay_of_components[of a 0] MakeDay_of_components[of b 0]
  show "DayNumber a = DayNumber b" by simp
next
  assume "DayNumber a = DayNumber b"
  then show "isSameDay a b"
    unfolding isSameDay_def by (rule toDateString_cong)
qed

lemma mondayOffset_range: "- 6 \<le> mondayOffset d" "mondayOffset d \<le> 0"
proof -
  have "0 \<le> (d + 4) mod 7" "(d + 4) mod 7 < 7" by simp_all
  then show "- 6 \<le> mondayOffset d" "mondayOffset d \<le> 0"
    unfolding mondayOffset_def by auto
qed

lemma getWeekEnd_eq:
  "getWeekEnd t = (DayNumber t + mondayOffset (DayNumber t) + 6) * msPerDay + 86399999"
proof -
  have "getWeekEnd t = setHours (getWeekStart t + 6 * msPerDay) 23 59 59 999"
    unfolding getWeekEnd_def Let_def by (simp add: setDate_shift)
  also have "\<dots> = (DayNumber t + mondayOffset (DayNumber t) + 6) * msPerDay + 86399999"
    unfolding setHours_def DayNumber_shift getWeekStart_eq DayNumber_midnight
    by (simp add: MakeDate_def MakeTime_def msPerHour_def msPerMinute_def msPerSecond_def)
  finally show ?thesis .
qed



lemma divmod_eqI:
  fixes k q r x :: int
  assumes "0 < k" "x = k * q + r" "0 \<le> r" "r < k"
  shows "x div k = q" and "x mod k = r"
proof -
  show d: "x div k = q"
    using assms by (intro div_eqI) auto
  show "x mod k = r"
    unfolding mod_eq_diff d using assms(2) by simp
qed











section \<open>The month grid\<close>


















lemma setHours_last_ms:
  "setHours t 23 59 59 999 = DayNumber t * msPerDay + 86399999"
  unfolding setHours_def MakeDate_def MakeTime_def
  by (simp add: msPerHour_def msPerMinute_def msPerSecond_def)






















section \<open>Form validation\<close>

text \<open>
  A JavaScript string is a sequence of UTF-16 code units, and \<open>length\<close> counts them.
\<close>

type_synonym jsstring = "16 word list"

text \<open>
  The messages are Japanese sentences built from the label of the field; the model keeps
  which sentence it is and the label and the bound that it was built from:
  the field is required; the field is longer than the maximum; the field is shorter than
  the minimum; the field is not a valid date; start and end are not both valid dates; the
  end is not after the start; the category is not a valid one; the colour is not a valid
  colour code.
\<close>

datatype message =
    IsRequired jsstring
  | TooLong jsstring nat
  | TooShort jsstring nat
  | NotADate jsstring
  | RangeNotDates
  | EndNotAfterStart
  | BadCategory
  | BadColor

text \<open>The labels of the fields, as the code writes them (title, description, place, start, end).\<close>

definition titleLabel :: jsstring where
  "titleLabel = [0x30BF, 0x30A4, 0x30C8, 0x30EB]"
definition descriptionLabel :: jsstring where
  "descriptionLabel = [0x8AAC, 0x660E]"
definition locationLabel :: jsstring where
  "locationLabel = [0x5834, 0x6240]"
definition startLabel :: jsstring where
  "startLabel = [0x958B, 0x59CB, 0x65E5, 0x6642]"
definition endLabel :: jsstring where
  "endLabel = [0x7D42, 0x4E86, 0x65E5, 0x6642]"

text \<open>
  A date field holds a \<open>Date\<close> object, whose time value may be \<open>NaN\<close> (\<open>None\<close>), or a
  string, which \<open>new Date(string)\<close> parses. The parser is the host's and is a parameter.
\<close>

datatype DateInput = DateObject "int option" | DateString jsstring

record EventFormData =
  title :: jsstring
  description :: "jsstring option"
  startDateTime :: DateInput
  endDateTime :: DateInput
  location :: "jsstring option"
  category :: "jsstring option"
  color :: "jsstring option"

definition isWhiteSpace :: "16 word \<Rightarrow> bool" where
  "isWhiteSpace c =
     (c \<in> set [0x0009, 0x000A, 0x000B, 0x000C, 0x000D, 0x0020, 0x00A0, 0x1680,
                0x2000, 0x2001, 0x2002, 0x2003, 0x2004, 0x2005, 0x2006, 0x2007,
                0x2008, 0x2009, 0x200A, 0x2028, 0x2029, 0x202F, 0x205F, 0x3000, 0xFEFF])"

definition trim :: "jsstring \<Rightarrow> jsstring" where
  "trim s = rev (dropWhile isWhiteSpace (rev (dropWhile isWhiteSpace s)))"

definition required :: "jsstring \<Rightarrow> jsstring \<Rightarrow> message option" where
  "required value fieldName =
     (if value = [] \<or> trim value = [] then Some (IsRequired fieldName) else None)"

definition maxLength :: "jsstring \<Rightarrow> nat \<Rightarrow> jsstring \<Rightarrow> message option" where
  "maxLength value max' fieldName =
     (if value \<noteq> [] \<and> length value > max' then Some (TooLong fieldName max') else None)"

definition minLength :: "jsstring \<Rightarrow> nat \<Rightarrow> jsstring \<Rightarrow> message option" where
  "minLength value min' fieldName =
     (if value \<noteq> [] \<and> length value < min' then Some (TooShort fieldName min') else None)"

definition toDateObj :: "(jsstring \<Rightarrow> int option) \<Rightarrow> DateInput \<Rightarrow> int option" where
  "toDateObj parse date = (case date of DateString s \<Rightarrow> parse s | DateObject t \<Rightarrow> t)"

definition isValidDate ::
  "(jsstring \<Rightarrow> int option) \<Rightarrow> DateInput \<Rightarrow> jsstring \<Rightarrow> message option" where
  "isValidDate parse date fieldName =
     (let dateObj = toDateObj parse date
      in if dateObj = None then Some (NotADate fieldName) else None)"

definition validateDateRange ::
  "(jsstring \<Rightarrow> int option) \<Rightarrow> DateInput \<Rightarrow> DateInput \<Rightarrow> message option" where
  "validateDateRange parse startDate endDate =
     (let start = toDateObj parse startDate;
          end = toDateObj parse endDate
      in case (start, end) of
           (Some s, Some e) \<Rightarrow> if s \<ge> e then Some EndNotAfterStart else None
         | _ \<Rightarrow> Some RangeNotDates)"

definition validateEventTitle :: "jsstring \<Rightarrow> message option" where
  "validateEventTitle t =
     (let requiredError = required t titleLabel
      in if requiredError \<noteq> None then requiredError
         else let maxLengthError = maxLength t 200 titleLabel
              in if maxLengthError \<noteq> None then maxLengthError else None)"

definition validateEventDescription :: "jsstring option \<Rightarrow> message option" where
  "validateEventDescription d =
     (case d of
        None \<Rightarrow> None
      | Some s \<Rightarrow>
          if s = [] then None
          else let maxLengthError = maxLength s 1000 descriptionLabel
               in if maxLengthError \<noteq> None then maxLengthError else None)"

definition validateEventLocation :: "jsstring option \<Rightarrow> message option" where
  "validateEventLocation l =
     (case l of
        None \<Rightarrow> None
      | Some s \<Rightarrow>
          if s = [] then None
          else let maxLengthError = maxLength s 200 locationLabel
               in if maxLengthError \<noteq> None then maxLengthError else None)"

definition validCategories :: "jsstring list" where
  "validCategories =
     [[0x4F1A, 0x8B70], [0x30BF, 0x30B9, 0x30AF], [0x7814, 0x4FEE],
      [0x30A4, 0x30D9, 0x30F3, 0x30C8], [0x500B, 0x4EBA], [0x4F11, 0x65E5]]"

definition validateEventCategory :: "jsstring option \<Rightarrow> message option" where
  "validateEventCategory c =
     (case c of
        None \<Rightarrow> None
      | Some s \<Rightarrow>
          if s = [] then None
          else if s \<notin> set validCategories then Some BadCategory
          else None)"

definition isHexDigit :: "16 word \<Rightarrow> bool" where
  "isHexDigit c =
     ((0x30 \<le> c \<and> c \<le> 0x39) \<or> (0x41 \<le> c \<and> c \<le> 0x46) \<or> (0x61 \<le> c \<and> c \<le> 0x66))"

text \<open>The pattern: a number sign followed by exactly six or exactly three hexadecimal digits.\<close>

definition colorPattern_test :: "jsstring \<Rightarrow> bool" where
  "colorPattern_test s =
     (case s of
        [] \<Rightarrow> False
      | c # rest \<Rightarrow>
          c = 0x23 \<and> (length rest = 6 \<or> length rest = 3) \<and> list_all isHexDigit rest)"

definition validateColor :: "jsstring option \<Rightarrow> message option" where
  "validateColor c =
     (case c of
        None \<Rightarrow> None
      | Some s \<Rightarrow>
          if s = [] then None
          else if \<not> colorPattern_test s then Some BadColor
          else None)"

text \<open>
  The error object is built by property writes. The model keeps the writes in program
  order; the object itself maps a key to the value written last.
  \<open>assignIf key err errors\<close> is the statement \<open>if (err) errors.key = err\<close>.
\<close>

type_synonym writes = "(string \<times> message) list"

definition assignIf :: "string \<Rightarrow> message option \<Rightarrow> writes \<Rightarrow> writes" where
  "assignIf key err errors = (case err of Some m \<Rightarrow> errors @ [(key, m)] | None \<Rightarrow> errors)"

definition validateEventForm_writes ::
  "(jsstring \<Rightarrow> int option) \<Rightarrow> EventFormData \<Rightarrow> writes" where
  "validateEventForm_writes parse data =
     (let errors = [];
          titleError = validateEventTitle (title data);
          errors = assignIf ''title'' titleError errors;
          descriptionError = validateEventDescription (description data);
          errors = assignIf ''description'' descriptionError errors;
          startDateError = isValidDate parse (startDateTime data) startLabel;
          errors = assignIf ''startDateTime'' startDateError errors;
          endDateError = isValidDate parse (endDateTime data) endLabel;
          errors =
            (case endDateError of
               Some m \<Rightarrow> errors @ [(''endDateTime'', m)]
             | None \<Rightarrow>
                 let dateRangeError =
                       validateDateRange parse (startDateTime data) (endDateTime data)
                 in assignIf ''endDateTime'' dateRangeError errors);
          locationError = validateEventLocation (location data);
          errors = assignIf ''location'' locationError errors;
          categoryError = validateEventCategory (category data);
          errors = assignIf ''category'' categoryError errors;
          colorError = validateColor (color data);
          errors = assignIf ''color'' colorError errors
      in errors)"

definition validateEventForm ::
  "(jsstring \<Rightarrow> int option) \<Rightarrow> EventFormData \<Rightarrow> (string \<rightharpoonup> message)" where
  "validateEventForm parse data = map_of (rev (validateEventForm_writes parse data))"

definition hasValidationErrors :: "(string \<rightharpoonup> message) \<Rightarrow> bool" where
  "hasValidationErrors errors = (dom errors \<noteq> {})"

subsection \<open>Properties of the validator\<close>

definition entry :: "string \<Rightarrow> message option \<Rightarrow> writes" where
  "entry key err = (case err of Some m \<Rightarrow> [(key, m)] | None \<Rightarrow> [])"

lemma assignIf_entry: "assignIf key err errors = errors @ entry key err"
  unfolding assignIf_def entry_def by (cases err) simp_all

definition endDateTimeError ::
  "(jsstring \<Rightarrow> int option) \<Rightarrow> EventFormData \<Rightarrow> message option" where
  "endDateTimeError parse data =
     (case isValidDate parse (endDateTime data) endLabel of
        Some m \<Rightarrow> Some m
      | None \<Rightarrow> validateDateRange parse (startDateTime data) (endDateTime data))"

lemma validateEventForm_writes_eq:
  "validateEventForm_writes parse data =
     entry ''title'' (validateEventTitle (title data)) @
     entry ''description'' (validateEventDescription (description data)) @
     entry ''startDateTime'' (isValidDate parse (startDateTime data) startLabel) @
     entry ''endDateTime'' (endDateTimeError parse data) @
     entry ''location'' (validateEventLocation (location data)) @
     entry ''category'' (validateEventCategory (category data)) @
     entry ''color'' (validateColor (color data))"
proof (cases "isValidDate parse (endDateTime data) endLabel")
  case None
  then show ?thesis
    unfolding validateEventForm_writes_def Let_def endDateTimeError_def
    by (simp add: assignIf_entry)
next
  case (Some m)
  then show ?thesis
    unfolding validateEventForm_writes_def Let_def endDateTimeError_def
    by (simp add: assignIf_entry entry_def)
qed

lemma map_fst_entry: "map fst (entry key err) = (if err = None then [] else [key])"
  unfolding entry_def by (cases err) simp_all

lemma map_of_entry: "map_of (entry key err) k = (if k = key then err else None)"
  unfolding entry_def by (cases err) simp_all

lemma filter_entry:
  "filter (\<lambda>(k, m). k = key') (entry key err) = (if key = key' then entry key err else [])"
  unfolding entry_def by (cases err) simp_all

lemma rev_entry: "rev (entry key err) = entry key err"
  unfolding entry_def by (cases err) simp_all

lemma validateEventForm_lookup:
  "validateEventForm parse data ''title'' = validateEventTitle (title data)"
  "validateEventForm parse data ''endDateTime'' = endDateTimeError parse data"
  unfolding validateEventForm_def validateEventForm_writes_eq
  by (simp_all add: rev_entry map_of_entry map_add_def split: option.splits)


text \<open>
  C9. For every timestamp \<open>t\<close>, a payload with an empty title whose start and end are both
  \<open>t\<close> (given as \<open>Date\<close> objects or as strings that parse to \<open>t\<close>) gets, in one call, an
  error for the title (required) and an error for the end (it must be strictly after the
  start).
\<close>

theorem validateEventForm_empty_title_equal_dates:
  assumes "title data = []"
    and "toDateObj parse (startDateTime data) = Some t"
    and "toDateObj parse (endDateTime data) = Some t"
  shows "validateEventForm parse data ''title'' = Some (IsRequired titleLabel) \<and>
         validateEventForm parse data ''endDateTime'' = Some EndNotAfterStart"
proof -
  have "validateEventTitle (title data) = Some (IsRequired titleLabel)"
    unfolding validateEventTitle_def required_def Let_def assms(1) by simp
  moreover have "endDateTimeError parse data = Some EndNotAfterStart"
    unfolding endDateTimeError_def isValidDate_def validateDateRange_def Let_def assms(2,3)
    by simp
  ultimately show ?thesis
    unfolding validateEventForm_lookup by simp
qed

theorem validateEventForm_empty_title_equal_dates_witness:
  "title \<lparr>title = [], description = None,
      startDateTime = DateObject (Some 1710496800000),
      endDateTime = DateObject (Some 1710496800000),
      location = None, category = None, color = None\<rparr> = [] \<and>
   validateEventForm (\<lambda>s. None)
     \<lparr>title = [], description = None,
      startDateTime = DateObject (Some 1710496800000),
      endDateTime = DateObject (Some 1710496800000),
      location = None, category = None, color = None\<rparr> ''title''
     = Some (IsRequired titleLabel) \<and>
   validateEventForm (\<lambda>s. None)
     \<lparr>title = [], description = None,
      startDateTime = DateObject (Some 1710496800000),
      endDateTime = DateObject (Some 1710496800000),
      location = None, category = None, color = None\<rparr> ''endDateTime''
     = Some EndNotAfterStart"
  using validateEventForm_empty_title_equal_dates
    [of "\<lparr>title = [], description = None,
      startDateTime = DateObject (Some 1710496800000),
      endDateTime = DateObject (Some 1710496800000),
      location = None, category = None, color = None\<rparr>" "\<lambda>s. None" 1710496800000]
  by (simp add: toDateObj_def)

text \<open>
  C10. The validator assigns at most one message to a field key. When the end does not
  parse to a valid timestamp, the only write under \<open>endDateTime\<close> is the parse error, so
  the error object carries the parse error there and the comparison of end and start is
  not made.
\<close>

theorem validateEventForm_one_message_per_key:
  "distinct (map fst (validateEventForm_writes parse data)) \<and>
   (toDateObj parse (endDateTime data) = None \<longrightarrow>
      filter (\<lambda>(k, m). k = ''endDateTime'') (validateEventForm_writes parse data)
        = [(''endDateTime'', NotADate endLabel)] \<and>
      validateEventForm parse data ''endDateTime'' = Some (NotADate endLabel))"
proof -
  have d: "distinct (map fst (validateEventForm_writes parse data))"
    unfolding validateEventForm_writes_eq by (simp add: map_fst_entry)
  have e: "filter (\<lambda>(k, m). k = ''endDateTime'') (validateEventForm_writes parse data)
             = [(''endDateTime'', NotADate endLabel)] \<and>
           validateEventForm parse data ''endDateTime'' = Some (NotADate endLabel)"
    if "toDateObj parse (endDateTime data) = None"
  proof -
    have "endDateTimeError parse data = Some (NotADate endLabel)"
      unfolding endDateTimeError_def isValidDate_def Let_def that by simp
    then show ?thesis
      unfolding validateEventForm_lookup validateEventForm_writes_eq
      by (simp add: filter_entry) (simp add: entry_def)
  qed
  from d e show ?thesis by blast
qed

theorem validateEventForm_one_message_per_key_witness:
  "toDateObj (\<lambda>s. None) (endDateTime \<lparr>title = [0x41], description = None,
      startDateTime = DateObject (Some 1710496800000),
      endDateTime = DateString [0x78],
      location = None, category = None, color = None\<rparr>) = None \<and>
   distinct (map fst (validateEventForm_writes (\<lambda>s. None)
     \<lparr>title = [0x41], description = None,
      startDateTime = DateObject (Some 1710496800000),
      endDateTime = DateString [0x78],
      location = None, category = None, color = None\<rparr>)) \<and>
   filter (\<lambda>(k, m). k = ''endDateTime'') (validateEventForm_writes (\<lambda>s. None)
     \<lparr>title = [0x41], description = None,
      startDateTime = DateObject (Some 1710496800000),
      endDateTime = DateString [0x78],
      location = None, category = None, color = None\<rparr>)
     = [(''endDateTime'', NotADate endLabel)] \<and>
   validateEventForm (\<lambda>s. None)
     \<lparr>title = [0x41], description = None,
      startDateTime = DateObject (Some 1710496800000),
      endDateTime = DateString [0x78],
      location = None, category = None, color = None\<rparr> ''endDateTime''
     = Some (NotADate endLabel)"
  using validateEventForm_one_message_per_key
    [of "\<lambda>s. None" "\<lparr>title = [0x41], description = None,
      startDateTime = DateObject (Some 1710496800000),
      endDateTime = DateString [0x78],
      location = None, category = None, color = None\<rparr>"]
  by (simp add: toDateObj_def)

section \<open>Events and their projection onto days and hours\<close>

text \<open>The event as the frontend holds it; \<open>id'\<close> is its field \<open>id\<close>.\<close>

record CalendarEvent =
  id' :: int
  title :: jsstring
  description :: "jsstring option"
  startDateTime :: Date
  endDateTime :: Date
  location :: "jsstring option"
  category :: "jsstring option"
  color :: "jsstring option"
  createdAt :: Date
  updatedAt :: Date
  isDeleted :: bool

text \<open>
  \<open>Array.prototype.sort\<close> with a comparison function is a stable sort: the model is the
  stable insertion sort, which puts \<open>a\<close> before \<open>b\<close> when the comparison of \<open>a\<close> with
  \<open>b\<close> is not positive.
\<close>

fun insertBy :: "('a \<Rightarrow> 'a \<Rightarrow> int) \<Rightarrow> 'a \<Rightarrow> 'a list \<Rightarrow> 'a list" where
  "insertBy cmp a [] = [a]"
| "insertBy cmp a (b # bs) = (if cmp a b \<le> 0 then a # b # bs else b # insertBy cmp a bs)"

definition sortArray :: "('a \<Rightarrow> 'a \<Rightarrow> int) \<Rightarrow> 'a list \<Rightarrow> 'a list" where
  "sortArray cmp xs = foldr (insertBy cmp) xs []"

text \<open>The comparison function of the week and day views.\<close>

definition byStartTime :: "CalendarEvent \<Rightarrow> CalendarEvent \<Rightarrow> int" where
  "byStartTime a b = getTime (startDateTime a) - getTime (startDateTime b)"

subsection \<open>Month view\<close>

definition MonthView_getEventsForDate :: "CalendarEvent list \<Rightarrow> Date \<Rightarrow> CalendarEvent list" where
  "MonthView_getEventsForDate events date =
     filter (\<lambda>event. isSameDay (startDateTime event) date) events"

subsection \<open>Week view\<close>

definition WeekView_getEventsForDate :: "CalendarEvent list \<Rightarrow> Date \<Rightarrow> CalendarEvent list" where
  "WeekView_getEventsForDate events date =
     sortArray byStartTime (filter (\<lambda>event. isSameDay (startDateTime event) date) events)"

subsection \<open>Day view\<close>

definition dayEvents :: "CalendarEvent list \<Rightarrow> Date \<Rightarrow> CalendarEvent list" where
  "dayEvents events currentDate =
     sortArray byStartTime
       (filter (\<lambda>event. isSameDay (startDateTime event) currentDate) events)"

definition getEventsForHour :: "CalendarEvent list \<Rightarrow> Date \<Rightarrow> int \<Rightarrow> CalendarEvent list" where
  "getEventsForHour events currentDate hour =
     filter
       (\<lambda>event.
          let eventHour = getHours (startDateTime event);
              eventEndHour = getHours (endDateTime event)
          in eventHour \<le> hour \<and> hour \<le> eventEndHour)
       (dayEvents events currentDate)"

text \<open>An event with the given start, end and deletion flag, for worked examples.\<close>

definition exampleEvent :: "int \<Rightarrow> Date \<Rightarrow> Date \<Rightarrow> bool \<Rightarrow> CalendarEvent" where
  "exampleEvent i s e d =
     \<lparr>id' = i, title = [0x41], description = None, startDateTime = s, endDateTime = e,
      location = None, category = None, color = None, createdAt = 0, updatedAt = 0,
      isDeleted = d\<rparr>"

subsection \<open>Properties\<close>

lemma set_insertBy: "set (insertBy cmp a bs) = insert a (set bs)"
  by (induction bs) auto

lemma set_sortArray: "set (sortArray cmp xs) = set xs"
  unfolding sortArray_def by (induction xs) (auto simp: set_insertBy)

lemma sorted_insertBy:
  "sorted_wrt (\<lambda>a b. startDateTime a \<le> startDateTime b) bs \<Longrightarrow>
   sorted_wrt (\<lambda>a b. startDateTime a \<le> startDateTime b) (insertBy byStartTime a bs)"
proof (induction bs)
  case Nil
  show ?case by simp
next
  case (Cons b bs)
  show ?case
  proof (cases "byStartTime a b \<le> 0")
    case True
    then have "startDateTime a \<le> startDateTime b"
      unfolding byStartTime_def getTime_def by simp
    with True Cons.prems show ?thesis by auto
  next
    case False
    then have "startDateTime b \<le> startDateTime a"
      unfolding byStartTime_def getTime_def by simp
    with False Cons show ?thesis by (auto simp: set_insertBy)
  qed
qed

lemma sorted_sortArray:
  "sorted_wrt (\<lambda>a b. startDateTime a \<le> startDateTime b) (sortArray byStartTime xs)"
  unfolding sortArray_def by (induction xs) (auto intro: sorted_insertBy)

lemma same_day_components:
  "isSameDay a b \<longleftrightarrow>
     getFullYear a = getFullYear b \<and> getMonth a = getMonth b \<and> getDate a = getDate b"
proof
  assume "isSameDay a b"
  then show "getFullYear a = getFullYear b \<and> getMonth a = getMonth b \<and> getDate a = getDate b"
    unfolding isSameDay_def toDateString_def getFullYear_def getMonth_def getDate_def by simp
next
  assume h: "getFullYear a = getFullYear b \<and> getMonth a = getMonth b \<and> getDate a = getDate b"
  with MakeDay_of_components[of a 0] MakeDay_of_components[of b 0]
  have "DayNumber a = DayNumber b"
    unfolding getFullYear_def getMonth_def getDate_def by simp
  then show "isSameDay a b" unfolding isSameDay_iff .
qed

lemma HourFromTime_MakeDate:
  assumes "0 \<le> h" "h < 24" "0 \<le> r" "r < msPerHour"
  shows "HourFromTime (MakeDate d (h * msPerHour + r)) = h"
proof -
  have "MakeDate d (h * msPerHour + r) = msPerHour * (24 * d + h) + r"
    unfolding MakeDate_def msPerDay_def msPerHour_def by simp
  from divmod_eqI(1)[OF _ this assms(3,4)]
  have "MakeDate d (h * msPerHour + r) div msPerHour = 24 * d + h"
    by (simp add: msPerHour_def)
  moreover have "(24 * d + h) mod 24 = h"
    using assms(1,2) by (intro divmod_eqI(2)[where q = d]) simp_all
  ultimately show ?thesis unfolding HourFromTime_def by simp
qed

lemma getEventsForHour_iff:
  "e \<in> set (getEventsForHour events currentDate h) \<longleftrightarrow>
     e \<in> set events \<and> isSameDay (startDateTime e) currentDate \<and>
     getHours (startDateTime e) \<le> h \<and> h \<le> getHours (endDateTime e)"
  unfolding getEventsForHour_def dayEvents_def Let_def
  by (auto simp: set_sortArray)


lemma getEventsForDate_set:
  "set (MonthView_getEventsForDate events date) =
     {e \<in> set events. isSameDay (startDateTime e) date}"
  "set (WeekView_getEventsForDate events date) =
     {e \<in> set events. isSameDay (startDateTime e) date}"
  unfolding MonthView_getEventsForDate_def WeekView_getEventsForDate_def
  by (auto simp: set_sortArray)

lemma DayNumber_numeral_simps:
  "DayNumber 1710460800000 = 19797"
  "DayNumber 1710493200000 = 19797"
  "DayNumber 1710496800000 = 19797"
  "DayNumber 1710498600000 = 19797"
  "DayNumber 1710500700000 = 19797"
  "DayNumber 1710511200000 = 19797"
  "DayNumber 1710547200000 = 19798"
  unfolding DayNumber_def msPerDay_def by simp_all

lemma getHours_numeral_simps:
  "getHours 1710493200000 = 9"
  "getHours 1710496800000 = 10"
  "getHours 1710498600000 = 10"
  "getHours 1710500700000 = 11"
  "getHours 1710511200000 = 14"
  unfolding getHours_def HourFromTime_def msPerHour_def by simp_all

text \<open>
  C1, as the code has it. Every event returned by \<open>getEventsForDate\<close> (month view and week
  view) is one of the given events and starts on the calendar day of the queried date;
  the deletion flag is not read, so the result is free of deleted events when the given
  list is.
\<close>

theorem getEventsForDate_same_day:
  assumes "e \<in> set (MonthView_getEventsForDate events date) \<or>
           e \<in> set (WeekView_getEventsForDate events date)"
  shows "e \<in> set events \<and>
         getFullYear (startDateTime e) = getFullYear date \<and>
         getMonth (startDateTime e) = getMonth date \<and>
         getDate (startDateTime e) = getDate date \<and>
         ((\<forall>x \<in> set events. \<not> isDeleted x) \<longrightarrow> \<not> isDeleted e)"
proof -
  from assms have "e \<in> set events" and "isSameDay (startDateTime e) date"
    unfolding getEventsForDate_set by auto
  then show ?thesis
    unfolding same_day_components by blast
qed

theorem getEventsForDate_same_day_witness:
  "exampleEvent 1 1710496800000 1710500700000 False
     \<in> set (MonthView_getEventsForDate
         [exampleEvent 1 1710496800000 1710500700000 False,
          exampleEvent 2 1710547200000 1710547200000 False] 1710460800000) \<and>
   getFullYear (startDateTime (exampleEvent 1 1710496800000 1710500700000 False))
     = getFullYear 1710460800000 \<and>
   getMonth (startDateTime (exampleEvent 1 1710496800000 1710500700000 False))
     = getMonth 1710460800000 \<and>
   getDate (startDateTime (exampleEvent 1 1710496800000 1710500700000 False))
     = getDate 1710460800000 \<and>
   \<not> isDeleted (exampleEvent 1 1710496800000 1710500700000 False)"
proof -
  have h: "exampleEvent 1 1710496800000 1710500700000 False
     \<in> set (MonthView_getEventsForDate
         [exampleEvent 1 1710496800000 1710500700000 False,
          exampleEvent 2 1710547200000 1710547200000 False] 1710460800000)"
    unfolding getEventsForDate_set isSameDay_iff
    by (simp add: exampleEvent_def DayNumber_numeral_simps)
  have d: "\<forall>x \<in> set [exampleEvent 1 1710496800000 1710500700000 False,
          exampleEvent 2 1710547200000 1710547200000 False]. \<not> isDeleted x"
    by (simp add: exampleEvent_def)
  from getEventsForDate_same_day[OF disjI1[OF h]] h d show ?thesis by blast
qed

theorem getEventsForDate_returns_deleted:
  "isDeleted (exampleEvent 1 1710496800000 1710500700000 True) \<and>
   MonthView_getEventsForDate [exampleEvent 1 1710496800000 1710500700000 True] 1710460800000
     = [exampleEvent 1 1710496800000 1710500700000 True] \<and>
   WeekView_getEventsForDate [exampleEvent 1 1710496800000 1710500700000 True] 1710460800000
     = [exampleEvent 1 1710496800000 1710500700000 True]"
  unfolding MonthView_getEventsForDate_def WeekView_getEventsForDate_def isSameDay_iff
  by (simp add: exampleEvent_def DayNumber_numeral_simps sortArray_def)

text \<open>
  C5 at two events of 15 March 2024 given in the order 14:00, 09:00: the month view's
  \<open>getEventsForDate\<close> returns them in the given order, which is not ascending by start,
  where the week view's returns them sorted.
\<close>

theorem MonthView_getEventsForDate_unsorted:
  "MonthView_getEventsForDate
     [exampleEvent 1 1710511200000 1710511200000 False,
      exampleEvent 2 1710493200000 1710493200000 False] 1710460800000
     = [exampleEvent 1 1710511200000 1710511200000 False,
        exampleEvent 2 1710493200000 1710493200000 False] \<and>
   startDateTime (exampleEvent 2 1710493200000 1710493200000 False)
     < startDateTime (exampleEvent 1 1710511200000 1710511200000 False) \<and>
   WeekView_getEventsForDate
     [exampleEvent 1 1710511200000 1710511200000 False,
      exampleEvent 2 1710493200000 1710493200000 False] 1710460800000
     = [exampleEvent 2 1710493200000 1710493200000 False,
        exampleEvent 1 1710511200000 1710511200000 False]"
  unfolding MonthView_getEventsForDate_def WeekView_getEventsForDate_def isSameDay_iff
  by (simp add: exampleEvent_def DayNumber_numeral_simps sortArray_def byStartTime_def
      getTime_def)

lemma WeekView_getEventsForDate_sorted:
  "sorted_wrt (\<lambda>a b. startDateTime a \<le> startDateTime b)
     (WeekView_getEventsForDate events date)"
  unfolding WeekView_getEventsForDate_def by (rule sorted_sortArray)

text \<open>
  C7. An event that starts on the viewed day is in the hour slot \<open>h\<close> exactly when
  \<open>h\<close> lies between the hour of its start and the hour of its end, both included. An
  event from 10:00 to 10:30 of a day is in slot 10 only, and an event from 10:00 to 11:05
  is in the slots 10 and 11 only.
\<close>

theorem getEventsForHour_slots:
  "(e \<in> set events \<and> isSameDay (startDateTime e) currentDate \<longrightarrow>
      (e \<in> set (getEventsForHour events currentDate h) \<longleftrightarrow>
         getHours (startDateTime e) \<le> h \<and> h \<le> getHours (endDateTime e))) \<and>
   (a \<in> set events \<and> isSameDay (startDateTime a) currentDate \<and>
    startDateTime a = MakeDate d (MakeTime 10 0 0 0) \<and>
    endDateTime a = MakeDate d (MakeTime 10 30 0 0) \<longrightarrow>
      (a \<in> set (getEventsForHour events currentDate h) \<longleftrightarrow> h = 10)) \<and>
   (b \<in> set events \<and> isSameDay (startDateTime b) currentDate \<and>
    startDateTime b = MakeDate d' (MakeTime 10 0 0 0) \<and>
    endDateTime b = MakeDate d' (MakeTime 11 5 0 0) \<longrightarrow>
      (b \<in> set (getEventsForHour events currentDate h) \<longleftrightarrow> h = 10 \<or> h = 11))"
proof -
  have h10: "getHours (MakeDate x (MakeTime 10 0 0 0)) = 10" for x
    using HourFromTime_MakeDate[of 10 0 x]
    unfolding getHours_def MakeTime_def by (simp add: msPerHour_def)
  have h1030: "getHours (MakeDate x (MakeTime 10 30 0 0)) = 10" for x
    using HourFromTime_MakeDate[of 10 "30 * msPerMinute" x]
    unfolding getHours_def MakeTime_def by (simp add: msPerHour_def msPerMinute_def)
  have h1105: "getHours (MakeDate x (MakeTime 11 5 0 0)) = 11" for x
    using HourFromTime_MakeDate[of 11 "5 * msPerMinute" x]
    unfolding getHours_def MakeTime_def by (simp add: msPerHour_def msPerMinute_def)
  show ?thesis
    unfolding getEventsForHour_iff by (auto simp: h10 h1030 h1105)
qed

theorem getEventsForHour_slots_witness:
  "exampleEvent 1 1710496800000 1710498600000 False
     \<in> set [exampleEvent 1 1710496800000 1710498600000 False,
             exampleEvent 2 1710496800000 1710500700000 False] \<and>
   isSameDay (startDateTime (exampleEvent 1 1710496800000 1710498600000 False)) 1710460800000 \<and>
   startDateTime (exampleEvent 1 1710496800000 1710498600000 False)
     = MakeDate 19797 (MakeTime 10 0 0 0) \<and>
   endDateTime (exampleEvent 1 1710496800000 1710498600000 False)
     = MakeDate 19797 (MakeTime 10 30 0 0) \<and>
   exampleEvent 2 1710496800000 1710500700000 False
     \<in> set [exampleEvent 1 1710496800000 1710498600000 False,
             exampleEvent 2 1710496800000 1710500700000 False] \<and>
   isSameDay (startDateTime (exampleEvent 2 1710496800000 1710500700000 False)) 1710460800000 \<and>
   startDateTime (exampleEvent 2 1710496800000 1710500700000 False)
     = MakeDate 19797 (MakeTime 10 0 0 0) \<and>
   endDateTime (exampleEvent 2 1710496800000 1710500700000 False)
     = MakeDate 19797 (MakeTime 11 5 0 0) \<and>
   exampleEvent 1 1710496800000 1710498600000 False
     \<in> set (getEventsForHour [exampleEvent 1 1710496800000 1710498600000 False,
             exampleEvent 2 1710496800000 1710500700000 False] 1710460800000 10) \<and>
   exampleEvent 2 1710496800000 1710500700000 False
     \<in> set (getEventsForHour [exampleEvent 1 1710496800000 1710498600000 False,
             exampleEvent 2 1710496800000 1710500700000 False] 1710460800000 10)"
proof -
  let ?a = "exampleEvent 1 1710496800000 1710498600000 False"
  let ?b = "exampleEvent 2 1710496800000 1710500700000 False"
  have m: "?a \<in> set [?a, ?b]" "?b \<in> set [?a, ?b]" by simp_all
  have s: "isSameDay (startDateTime ?a) 1710460800000"
    "isSameDay (startDateTime ?b) 1710460800000"
    unfolding isSameDay_iff by (simp_all add: exampleEvent_def DayNumber_numeral_simps)
  have t: "startDateTime ?a = MakeDate 19797 (MakeTime 10 0 0 0)"
    "endDateTime ?a = MakeDate 19797 (MakeTime 10 30 0 0)"
    "startDateTime ?b = MakeDate 19797 (MakeTime 10 0 0 0)"
    "endDateTime ?b = MakeDate 19797 (MakeTime 11 5 0 0)"
    by (simp_all add: exampleEvent_def MakeDate_def MakeTime_def msPerDay_def msPerHour_def
        msPerMinute_def msPerSecond_def)
  from getEventsForHour_slots[of ?a "[?a, ?b]" 1710460800000 10 ?a 19797 ?b 19797] m s t
  show ?thesis by blast
qed

text \<open>
  C4, as the code has it. The hour slots do not look at the order of start and end. An
  event whose end is not after its start is in slot \<open>h\<close> only if it starts on the viewed
  day and \<open>h\<close> lies between the hour of its start and the hour of its end: it is in no
  slot when the hour of its end is smaller than the hour of its start, and an event whose
  end equals its start is in the slot of its start hour and in no other.
\<close>

theorem getEventsForHour_malformed:
  assumes "endDateTime e \<le> startDateTime e"
  shows "(e \<in> set (getEventsForHour events currentDate h) \<longrightarrow>
            e \<in> set events \<and> isSameDay (startDateTime e) currentDate \<and>
            getHours (startDateTime e) \<le> h \<and> h \<le> getHours (endDateTime e)) \<and>
         (getHours (endDateTime e) < getHours (startDateTime e) \<longrightarrow>
            e \<notin> set (getEventsForHour events currentDate h)) \<and>
         (endDateTime e = startDateTime e \<and> e \<in> set events \<and>
          isSameDay (startDateTime e) currentDate \<longrightarrow>
            (e \<in> set (getEventsForHour events currentDate h) \<longleftrightarrow>
               h = getHours (startDateTime e)))"
  unfolding getEventsForHour_iff by auto

theorem getEventsForHour_malformed_witness:
  "endDateTime (exampleEvent 1 1710496800000 1710496800000 False)
     \<le> startDateTime (exampleEvent 1 1710496800000 1710496800000 False) \<and>
   exampleEvent 1 1710496800000 1710496800000 False
     \<in> set [exampleEvent 1 1710496800000 1710496800000 False] \<and>
   isSameDay (startDateTime (exampleEvent 1 1710496800000 1710496800000 False)) 1710460800000 \<and>
   exampleEvent 1 1710496800000 1710496800000 False
     \<in> set (getEventsForHour [exampleEvent 1 1710496800000 1710496800000 False]
              1710460800000 (getHours (startDateTime
                 (exampleEvent 1 1710496800000 1710496800000 False)))) \<and>
   endDateTime (exampleEvent 2 1710496800000 1710493200000 False)
     \<le> startDateTime (exampleEvent 2 1710496800000 1710493200000 False) \<and>
   getHours (endDateTime (exampleEvent 2 1710496800000 1710493200000 False))
     < getHours (startDateTime (exampleEvent 2 1710496800000 1710493200000 False)) \<and>
   exampleEvent 2 1710496800000 1710493200000 False
     \<notin> set (getEventsForHour [exampleEvent 2 1710496800000 1710493200000 False]
              1710460800000 9)"
proof -
  let ?z = "exampleEvent 1 1710496800000 1710496800000 False"
  let ?r = "exampleEvent 2 1710496800000 1710493200000 False"
  have z: "endDateTime ?z \<le> startDateTime ?z" "endDateTime ?z = startDateTime ?z"
    "?z \<in> set [?z]"
    by (simp_all add: exampleEvent_def)
  have s: "isSameDay (startDateTime ?z) 1710460800000"
    unfolding isSameDay_iff by (simp add: exampleEvent_def DayNumber_numeral_simps)
  have r: "endDateTime ?r \<le> startDateTime ?r"
    "getHours (endDateTime ?r) < getHours (startDateTime ?r)"
    by (simp_all add: exampleEvent_def getHours_numeral_simps)
  from getEventsForHour_malformed[OF z(1), of "[?z]" 1710460800000 "getHours (startDateTime ?z)"]
    getEventsForHour_malformed[OF r(1), of "[?r]" 1710460800000 9] z s r
  show ?thesis by blast
qed

theorem getEventsForHour_keeps_zero_length_event:
  "endDateTime (exampleEvent 1 1710496800000 1710496800000 False)
     \<le> startDateTime (exampleEvent 1 1710496800000 1710496800000 False) \<and>
   getEventsForHour [exampleEvent 1 1710496800000 1710496800000 False] 1710460800000 10
     = [exampleEvent 1 1710496800000 1710496800000 False]"
  unfolding getEventsForHour_def dayEvents_def isSameDay_iff Let_def
  by (simp add: exampleEvent_def DayNumber_numeral_simps getHours_numeral_simps sortArray_def)

section \<open>The view state\<close>

datatype CalendarViewMode = Month | Week | Day

record ViewState =
  currentDate :: Date
  viewMode :: CalendarViewMode

text \<open>
  The hook starts in month mode on the initial date, or on today when none is given.
  Each transition takes the state and returns the new one.
\<close>

definition useCalendarView :: "Date option \<Rightarrow> Date \<Rightarrow> ViewState" where
  "useCalendarView initialDate now =
     \<lparr>currentDate = (case initialDate of Some d \<Rightarrow> d | None \<Rightarrow> getToday now),
      viewMode = Month\<rparr>"

definition goToDate :: "Date \<Rightarrow> ViewState \<Rightarrow> ViewState" where
  "goToDate date s = s\<lparr>currentDate := date\<rparr>"

definition goToToday :: "Date \<Rightarrow> ViewState \<Rightarrow> ViewState" where
  "goToToday now s = s\<lparr>currentDate := getToday now\<rparr>"

definition goToPrevious :: "ViewState \<Rightarrow> ViewState" where
  "goToPrevious s =
     s\<lparr>currentDate :=
        (let prev = currentDate s;
             newDate = prev
         in case viewMode s of
              Month \<Rightarrow> setMonth newDate (getMonth prev - 1)
            | Week \<Rightarrow> setDate newDate (getDate prev - 7)
            | Day \<Rightarrow> setDate newDate (getDate prev - 1))\<rparr>"

definition goToNext :: "ViewState \<Rightarrow> ViewState" where
  "goToNext s =
     s\<lparr>currentDate :=
        (let prev = currentDate s;
             newDate = prev
         in case viewMode s of
              Month \<Rightarrow> setMonth newDate (getMonth prev + 1)
            | Week \<Rightarrow> setDate newDate (getDate prev + 7)
            | Day \<Rightarrow> setDate newDate (getDate prev + 1))\<rparr>"

definition changeViewMode :: "CalendarViewMode \<Rightarrow> ViewState \<Rightarrow> ViewState" where
  "changeViewMode mode s = s\<lparr>viewMode := mode\<rparr>"

definition getPeriodStart :: "ViewState \<Rightarrow> Date" where
  "getPeriodStart s =
     (case viewMode s of
        Month \<Rightarrow> getMonthStart (currentDate s)
      | Week \<Rightarrow> getWeekStart (currentDate s)
      | Day \<Rightarrow> (let dayStart = currentDate s in setHours dayStart 0 0 0 0))"

definition getPeriodEnd :: "ViewState \<Rightarrow> Date" where
  "getPeriodEnd s =
     (case viewMode s of
        Month \<Rightarrow> getMonthEnd (currentDate s)
      | Week \<Rightarrow> getWeekEnd (currentDate s)
      | Day \<Rightarrow> (let dayEnd = currentDate s in setHours dayEnd 23 59 59 999))"

definition isDateInPeriod :: "ViewState \<Rightarrow> Date \<Rightarrow> bool" where
  "isDateInPeriod s date =
     (let periodStart = getPeriodStart s;
          periodEnd = getPeriodEnd s
      in date \<ge> periodStart \<and> date \<le> periodEnd)"


subsection \<open>Properties\<close>

text \<open>
  In week mode and in day mode the period contains the anchor, whatever the anchor's time
  of day: both ends are set to the first and to the last millisecond of their day.
\<close>

lemma time_in_day:
  shows "DayNumber t * msPerDay \<le> t"
    and "t \<le> DayNumber t * msPerDay + 86399999"
proof -
  have "msPerDay * (t div msPerDay) \<le> t" "t < msPerDay * (t div msPerDay) + msPerDay"
    by (rule div_bounds; simp add: msPerDay_def)+
  then show "DayNumber t * msPerDay \<le> t" "t \<le> DayNumber t * msPerDay + 86399999"
    unfolding DayNumber_def by (simp_all add: msPerDay_def)
qed

lemma week_day_period_contains_anchor:
  assumes "viewMode s = Week \<or> viewMode s = Day"
  shows "getPeriodStart s \<le> currentDate s \<and> currentDate s \<le> getPeriodEnd s"
proof -
  define t where "t = currentDate s"
  define D where "D = DayNumber t"
  have o: "(D + mondayOffset D) * msPerDay \<le> D * msPerDay"
    "D * msPerDay \<le> (D + mondayOffset D + 6) * msPerDay"
    using mondayOffset_range[of D] by (simp_all add: msPerDay_def)
  have w: "getWeekStart t \<le> t" "t \<le> getWeekEnd t"
    unfolding getWeekStart_eq getWeekEnd_eq D_def[symmetric]
    using o time_in_day[of t] unfolding D_def[symmetric] by linarith+
  have d: "setHours t 0 0 0 0 \<le> t" "t \<le> setHours t 23 59 59 999"
    unfolding setHours_midnight setHours_last_ms using time_in_day[of t] by simp_all
  from assms w d show ?thesis
    unfolding getPeriodStart_def getPeriodEnd_def Let_def t_def by auto
qed

text \<open>
  C2 at its input: in month mode with the anchor on 31 January 2024, \<open>goToNext\<close> sets the
  month to February and keeps the day of the month, 31, which the host carries over: the
  new anchor is 2 March 2024.
\<close>

theorem goToNext_from_january_31:
  "getFullYear 1706659200000 = 2024 \<and> getMonth 1706659200000 = 0 \<and>
   getDate 1706659200000 = 31 \<and>
   currentDate (goToNext \<lparr>currentDate = 1706659200000, viewMode = Month\<rparr>) = 1709337600000 \<and>
   getFullYear 1709337600000 = 2024 \<and> getMonth 1709337600000 = 2 \<and>
   getDate 1709337600000 = 2"
  unfolding goToNext_def by code_simp

text \<open>
  C3 at a failing input: in month mode, after \<open>goToDate\<close> to 31 March 2024 at 10:00, the
  end of the period is 31 March 2024 at 00:00, which is before the anchor.
\<close>

theorem getPeriodEnd_month_before_anchor:
  "currentDate (goToDate 1711879200000 \<lparr>currentDate = 1710460800000, viewMode = Month\<rparr>)
     = 1711879200000 \<and>
   getPeriodEnd (goToDate 1711879200000 \<lparr>currentDate = 1710460800000, viewMode = Month\<rparr>)
     = 1711843200000 \<and>
   getPeriodEnd (goToDate 1711879200000 \<lparr>currentDate = 1710460800000, viewMode = Month\<rparr>)
     < currentDate (goToDate 1711879200000 \<lparr>currentDate = 1710460800000, viewMode = Month\<rparr>)"
  unfolding goToDate_def getPeriodEnd_def by code_simp

end
